theory Spec2Isabelle
  imports Main "HOL-Library.Sublist" "HOL-Library.AList"
begin

section \<open>The XML serializer without namespace support (XMLSerializerNoNSImpl)\<close>

text \<open>
  A JavaScript string is modelled as \<open>string\<close>, a list of characters that the
  serializer reads one by one (\<open>data[i]\<close>) and compares with the literals
  \<open>&\<close>, \<open><\<close>, \<open>>\<close> and the double quote.
  An exception thrown by the serializer is a value \<open>Inl e\<close> of the result;
  a returned string is \<open>Inr s\<close>.
\<close>

subsection \<open>Errors\<close>

text \<open>One constructor for each \<open>throw new Error(...)\<close> of the serializer, in source order.\<close>

datatype serialization_error =
    InvalidNodeLocalName
  | MissingDocumentElement
  | InvalidCommentData
  | InvalidTextData
  | InvalidPublicId
  | InvalidSystemId
  | InvalidPITarget
  | InvalidPIData
  | InvalidCData
  | DuplicateAttributes
  | InvalidAttrLocalName
  | InvalidAttrValue
  | UnknownNodeType nat

text \<open>The only exception that leaves \<open>_xmlSerialization\<close>.\<close>

datatype dom_exception = InvalidStateError

subsection \<open>The node tree, as the serializer reads it\<close>

text \<open>
  An attribute exposes \<open>localName\<close> and \<open>value\<close>; the value parameter of
  \<open>_serializeAttributeValue\<close> has type \<open>string | null\<close>, so it is an option.
\<close>

record attr =
  attr_localName :: string
  attr_value :: "string option"

text \<open>
  One constructor for each case of the switch on \<open>node.nodeType\<close>, with the fields
  that case reads. \<open>OtherNode t\<close> is a node whose \<open>nodeType\<close> \<open>t\<close> is none of the eight
  cases (the \<open>default\<close> branch). \<open>Document\<close> carries the nullable \<open>documentElement\<close>
  reference and the child list.
\<close>

datatype node =
    Element string "attr list" "node list"
  | Document "node option" "node list"
  | Comment string
  | Text string
  | DocumentFragment "node list"
  | DocumentType string string string
  | ProcessingInstruction string string
  | CData string
  | OtherNode nat

subsection \<open>The character-class predicates\<close>

text \<open>
  \<open>xml_isName\<close>, \<open>xml_isLegalChar\<close> and \<open>xml_isPubidChar\<close> are imported from
  \<open>../algorithm\<close>, which is not among the sources. The serializer is therefore
  modelled over any three predicates on strings, passed as a record.
\<close>

record algorithm =
  xml_isName :: "string \<Rightarrow> bool"
  xml_isLegalChar :: "string \<Rightarrow> bool"
  xml_isPubidChar :: "string \<Rightarrow> bool"

subsection \<open>String operations of the host language\<close>

text \<open>\<open>s.indexOf(sub)\<close>: the position of the first occurrence, or \<open>-1\<close>.\<close>

fun indexOf :: "string \<Rightarrow> string \<Rightarrow> int" where
  "indexOf [] sub = (if sub = [] then 0 else -1)"
| "indexOf (c # cs) sub =
     (if prefix sub (c # cs) then 0
      else (let r = indexOf cs sub in if r = -1 then -1 else r + 1))"

text \<open>\<open>s.endsWith(sub)\<close>.\<close>

definition endsWith :: "string \<Rightarrow> string \<Rightarrow> bool" where
  "endsWith s sub = suffix sub s"

text \<open>\<open>(/^xml$/i).test(s)\<close>: the whole string is \<open>xml\<close> in any letter case.\<close>

fun test_xml_i :: "string \<Rightarrow> bool" where
  "test_xml_i [a, b, c] =
     ((a = CHR ''x'' \<or> a = CHR ''X'') \<and> (b = CHR ''m'' \<or> b = CHR ''M'') \<and>
      (c = CHR ''l'' \<or> c = CHR ''L''))"
| "test_xml_i s = False"

text \<open>
  The property names every object literal \<open>{}\<close> inherits from \<open>Object.prototype\<close>.
  The operator \<open>in\<close> looks a key up along the prototype chain, so
  \<open>key in localNameSet\<close> holds for these names as well as for the keys stored.
\<close>

definition objectPrototypeKeys :: "string list" where
  "objectPrototypeKeys =
     [''constructor'', ''__defineGetter__'', ''__defineSetter__'', ''hasOwnProperty'',
      ''__lookupGetter__'', ''__lookupSetter__'', ''isPrototypeOf'',
      ''propertyIsEnumerable'', ''toString'', ''valueOf'', ''__proto__'',
      ''toLocaleString'']"

text \<open>\<open>key in obj\<close> for an object literal whose stored keys are \<open>own\<close>.\<close>

definition inObject :: "string \<Rightarrow> string list \<Rightarrow> bool" where
  "inObject key own = (key \<in> set own \<or> key \<in> set objectPrototypeKeys)"

subsection \<open>Leaf serializers\<close>

text \<open>\<open>_serializeComment\<close>.\<close>

definition serializeComment :: "algorithm \<Rightarrow> string \<Rightarrow> bool \<Rightarrow> serialization_error + string" where
  "serializeComment A data requireWellFormed =
     (if requireWellFormed \<and> (\<not> xml_isLegalChar A data \<or>
         indexOf data ''--'' \<noteq> -1 \<or> endsWith data ''-'')
      then Inl InvalidCommentData
      else Inr (''<!--'' @ data @ ''-->''))"

text \<open>The loop of \<open>_serializeText\<close> over \<open>data[i]\<close>, with its accumulator \<open>markup\<close>.\<close>

fun serializeText_loop :: "string \<Rightarrow> string \<Rightarrow> string" where
  "serializeText_loop markup [] = markup"
| "serializeText_loop markup (c # cs) =
     serializeText_loop
       (if c = CHR ''&'' then markup @ ''&amp;''
        else if c = CHR ''<'' then markup @ ''&lt;''
        else if c = CHR ''>'' then markup @ ''&gt;''
        else markup @ [c]) cs"

text \<open>\<open>_serializeText\<close>.\<close>

definition serializeText :: "algorithm \<Rightarrow> string \<Rightarrow> bool \<Rightarrow> serialization_error + string" where
  "serializeText A data requireWellFormed =
     (if requireWellFormed \<and> \<not> xml_isLegalChar A data then Inl InvalidTextData
      else Inr (serializeText_loop [] data))"

text \<open>
  \<open>_serializeDocumentType\<close>. A string is truthy when it is not empty.
\<close>

definition serializeDocumentType ::
  "algorithm \<Rightarrow> string \<Rightarrow> string \<Rightarrow> string \<Rightarrow> bool \<Rightarrow> serialization_error + string" where
  "serializeDocumentType A name publicId systemId requireWellFormed =
     (if requireWellFormed \<and> \<not> xml_isPubidChar A publicId then Inl InvalidPublicId
      else if requireWellFormed \<and>
          (\<not> xml_isLegalChar A systemId \<or>
           (indexOf systemId ''\"'' \<noteq> -1 \<and> indexOf systemId [CHR 0x27] \<noteq> -1))
      then Inl InvalidSystemId
      else Inr
        (if publicId \<noteq> [] \<and> systemId \<noteq> [] then
           ''<!DOCTYPE '' @ name @ '' PUBLIC \"'' @ publicId @ ''\" \"'' @ systemId @ ''\">''
         else if publicId \<noteq> [] then
           ''<!DOCTYPE '' @ name @ '' PUBLIC \"'' @ publicId @ ''\">''
         else if systemId \<noteq> [] then
           ''<!DOCTYPE '' @ name @ '' SYSTEM \"'' @ systemId @ ''\">''
         else ''<!DOCTYPE '' @ name @ ''>''))"

text \<open>\<open>_serializeProcessingInstruction\<close>.\<close>

definition serializeProcessingInstruction ::
  "algorithm \<Rightarrow> string \<Rightarrow> string \<Rightarrow> bool \<Rightarrow> serialization_error + string" where
  "serializeProcessingInstruction A target data requireWellFormed =
     (if requireWellFormed \<and> (indexOf target '':'' \<noteq> -1 \<or> test_xml_i target)
      then Inl InvalidPITarget
      else if requireWellFormed \<and> (\<not> xml_isLegalChar A data \<or> indexOf data ''?>'' \<noteq> -1)
      then Inl InvalidPIData
      else Inr (''<?'' @ target @ '' '' @ data @ ''?>''))"

text \<open>\<open>_serializeCData\<close>.\<close>

definition serializeCData :: "algorithm \<Rightarrow> string \<Rightarrow> bool \<Rightarrow> serialization_error + string" where
  "serializeCData A data requireWellFormed =
     (if requireWellFormed \<and> indexOf data '']]>'' \<noteq> -1 then Inl InvalidCData
      else Inr (''<![CDATA['' @ data @ '']]>''))"

subsection \<open>Attributes\<close>

text \<open>The loop of \<open>_serializeAttributeValue\<close> over \<open>value[i]\<close>, with its accumulator.\<close>

fun serializeAttributeValue_loop :: "string \<Rightarrow> string \<Rightarrow> string" where
  "serializeAttributeValue_loop result [] = result"
| "serializeAttributeValue_loop result (c # cs) =
     serializeAttributeValue_loop
       (if c = CHR 0x22 then result @ ''&quot;''
        else if c = CHR ''&'' then result @ ''&amp;''
        else if c = CHR ''<'' then result @ ''&lt;''
        else if c = CHR ''>'' then result @ ''&gt;''
        else result @ [c]) cs"

text \<open>\<open>_serializeAttributeValue\<close>; \<open>None\<close> is \<open>null\<close>.\<close>

definition serializeAttributeValue ::
  "algorithm \<Rightarrow> string option \<Rightarrow> bool \<Rightarrow> serialization_error + string" where
  "serializeAttributeValue A v requireWellFormed =
     (case v of
        None \<Rightarrow> Inr []
      | Some s \<Rightarrow>
          if requireWellFormed \<and> \<not> xml_isLegalChar A s then Inl InvalidAttrValue
          else Inr (serializeAttributeValue_loop [] s))"

text \<open>
  The loop of \<open>_serializeAttributes\<close>. The attribute collection is the list of its
  items in index order (\<open>item(i)\<close> for \<open>i < length\<close> is an attribute, never null).
  \<open>localNameSet\<close> is \<open>None\<close> for \<open>undefined\<close> and \<open>Some keys\<close> for an object with the
  keys stored so far.
\<close>

fun serializeAttributes_loop ::
  "algorithm \<Rightarrow> bool \<Rightarrow> string list option \<Rightarrow> string \<Rightarrow> attr list \<Rightarrow>
   serialization_error + string" where
  "serializeAttributes_loop A requireWellFormed localNameSet result [] = Inr result"
| "serializeAttributes_loop A requireWellFormed localNameSet result (a # rest) =
     (if requireWellFormed \<and>
         (case localNameSet of None \<Rightarrow> False | Some keys \<Rightarrow> inObject (attr_localName a) keys)
      then Inl DuplicateAttributes
      else
        let localNameSet' =
          (case localNameSet of
             None \<Rightarrow> None
           | Some keys \<Rightarrow> if requireWellFormed then Some (attr_localName a # keys) else Some keys)
        in
          if requireWellFormed \<and>
             (indexOf (attr_localName a) '':'' \<noteq> -1 \<or> \<not> xml_isName A (attr_localName a))
          then Inl InvalidAttrLocalName
          else
            (case serializeAttributeValue A (attr_value a) requireWellFormed of
               Inl e \<Rightarrow> Inl e
             | Inr v \<Rightarrow>
                 serializeAttributes_loop A requireWellFormed localNameSet'
                   (result @ '' '' @ attr_localName a @ ''=\"'' @ v @ ''\"'') rest))"

text \<open>\<open>_serializeAttributes\<close>.\<close>

definition serializeAttributes ::
  "algorithm \<Rightarrow> attr list \<Rightarrow> bool \<Rightarrow> serialization_error + string" where
  "serializeAttributes A attributes requireWellFormed =
     serializeAttributes_loop A requireWellFormed
       (if requireWellFormed then Some [] else None) [] attributes"

subsection \<open>The recursive serializers\<close>

text \<open>
  \<open>_serializeNode\<close> with \<open>_serializeElement\<close>, \<open>_serializeDocument\<close> and
  \<open>_serializeDocumentFragment\<close>, which call it back on every child.
  \<open>serializeChildren\<close> is the loop \<open>for (const childNode of node.childNodes) markup +=
  this._serializeNode(childNode, requireWellFormed)\<close> the three of them share; the first
  child that throws ends it.
\<close>

function serializeNode :: "algorithm \<Rightarrow> node \<Rightarrow> bool \<Rightarrow> serialization_error + string"
  and serializeElement ::
    "algorithm \<Rightarrow> string \<Rightarrow> attr list \<Rightarrow> node list \<Rightarrow> bool \<Rightarrow> serialization_error + string"
  and serializeDocument ::
    "algorithm \<Rightarrow> node option \<Rightarrow> node list \<Rightarrow> bool \<Rightarrow> serialization_error + string"
  and serializeDocumentFragment ::
    "algorithm \<Rightarrow> node list \<Rightarrow> bool \<Rightarrow> serialization_error + string"
  and serializeChildren ::
    "algorithm \<Rightarrow> string \<Rightarrow> node list \<Rightarrow> bool \<Rightarrow> serialization_error + string"
where
  "serializeNode A (Element localName attributes childNodes) requireWellFormed =
     serializeElement A localName attributes childNodes requireWellFormed"
| "serializeNode A (Document documentElement childNodes) requireWellFormed =
     serializeDocument A documentElement childNodes requireWellFormed"
| "serializeNode A (Comment data) requireWellFormed =
     serializeComment A data requireWellFormed"
| "serializeNode A (Text data) requireWellFormed =
     serializeText A data requireWellFormed"
| "serializeNode A (DocumentFragment childNodes) requireWellFormed =
     serializeDocumentFragment A childNodes requireWellFormed"
| "serializeNode A (DocumentType name publicId systemId) requireWellFormed =
     serializeDocumentType A name publicId systemId requireWellFormed"
| "serializeNode A (ProcessingInstruction target data) requireWellFormed =
     serializeProcessingInstruction A target data requireWellFormed"
| "serializeNode A (CData data) requireWellFormed =
     serializeCData A data requireWellFormed"
| "serializeNode A (OtherNode t) requireWellFormed = Inl (UnknownNodeType t)"
| "serializeElement A localName attributes childNodes requireWellFormed =
     (if requireWellFormed \<and> (indexOf localName '':'' \<noteq> -1 \<or> \<not> xml_isName A localName)
      then Inl InvalidNodeLocalName
      else
        (case serializeAttributes A attributes requireWellFormed of
           Inl e \<Rightarrow> Inl e
         | Inr attrs \<Rightarrow>
             if length childNodes = 0 then Inr (''<'' @ localName @ attrs @ ''/'' @ ''>'')
             else
               (case serializeChildren A (''<'' @ localName @ attrs @ ''>'') childNodes
                       requireWellFormed of
                  Inl e \<Rightarrow> Inl e
                | Inr markup \<Rightarrow> Inr (markup @ ''</'' @ localName @ ''>''))))"
| "serializeDocument A documentElement childNodes requireWellFormed =
     (if requireWellFormed \<and> documentElement = None then Inl MissingDocumentElement
      else serializeChildren A [] childNodes requireWellFormed)"
| "serializeDocumentFragment A childNodes requireWellFormed =
     serializeChildren A [] childNodes requireWellFormed"
| "serializeChildren A markup [] requireWellFormed = Inr markup"
| "serializeChildren A markup (childNode # rest) requireWellFormed =
     (case serializeNode A childNode requireWellFormed of
        Inl e \<Rightarrow> Inl e
      | Inr s \<Rightarrow> serializeChildren A (markup @ s) rest requireWellFormed)"
  by pat_completeness auto

text \<open>
  Every call goes to a smaller tree: a node is larger than its child list, and the three
  serializers with a child list sit between the node and the loop over its children.
\<close>

termination
  by (relation "measure (case_sum
        (case_sum (\<lambda>(A, n, r). 2 * size n)
                  (\<lambda>(A, l, a, cs, r). 2 * size_list size cs + 1))
        (case_sum (\<lambda>(A, d, cs, r). 2 * size_list size cs + 1)
          (case_sum (\<lambda>(A, cs, r). 2 * size_list size cs + 1)
                    (\<lambda>(A, m, cs, r). 2 * size_list size cs))))") auto

text \<open>\<open>_xmlSerialization\<close>: any exception becomes \<open>InvalidStateError\<close>.\<close>

definition xmlSerialization :: "algorithm \<Rightarrow> node \<Rightarrow> bool \<Rightarrow> dom_exception + string" where
  "xmlSerialization A node' requireWellFormed =
     (case serializeNode A node' requireWellFormed of
        Inl e \<Rightarrow> Inl InvalidStateError
      | Inr s \<Rightarrow> Inr s)"

text \<open>\<open>serializeToString\<close>.\<close>

definition serializeToString :: "algorithm \<Rightarrow> node \<Rightarrow> dom_exception + string" where
  "serializeToString A root = xmlSerialization A root False"

subsection \<open>Trees with a node outside the eight categories\<close>

text \<open>
  Some node of the tree, reached from the root through \<open>childNodes\<close>, has a
  \<open>nodeType\<close> that the switch of \<open>_serializeNode\<close> does not list.
\<close>

fun hasUnknownCategory :: "node \<Rightarrow> bool" where
  "hasUnknownCategory (Element localName attributes childNodes) =
     (\<exists>c \<in> set childNodes. hasUnknownCategory c)"
| "hasUnknownCategory (Document documentElement childNodes) =
     (\<exists>c \<in> set childNodes. hasUnknownCategory c)"
| "hasUnknownCategory (DocumentFragment childNodes) =
     (\<exists>c \<in> set childNodes. hasUnknownCategory c)"
| "hasUnknownCategory (OtherNode t) = True"
| "hasUnknownCategory (Comment data) = False"
| "hasUnknownCategory (Text data) = False"
| "hasUnknownCategory (DocumentType name publicId systemId) = False"
| "hasUnknownCategory (ProcessingInstruction target data) = False"
| "hasUnknownCategory (CData data) = False"

subsection \<open>Serialization as plain concatenation\<close>

text \<open>
  What the design says the serialization is when no check is made: the markup of each
  node category written out, the children in child order, text with the three entity
  replacements and attribute values with the four. The doctype follows steps 3 to 10 of
  the algorithm quoted in the comment of \<open>_serializeDocumentType\<close>. These definitions
  follow the wording of the design, not the code; the serializer is compared with them
  below.
\<close>

text \<open>The three replacements of text content.\<close>

definition textEntities :: "string \<Rightarrow> string" where
  "textEntities s =
     concat (map (\<lambda>c. if c = CHR ''&'' then ''&amp;'' else if c = CHR ''<'' then ''&lt;''
        else if c = CHR ''>'' then ''&gt;'' else [c]) s)"

text \<open>The four replacements of an attribute value.\<close>

definition attributeEntities :: "string \<Rightarrow> string" where
  "attributeEntities s =
     concat (map (\<lambda>c. if c = CHR ''&'' then ''&amp;'' else if c = CHR 0x22 then ''&quot;''
        else if c = CHR ''<'' then ''&lt;'' else if c = CHR ''>'' then ''&gt;'' else [c]) s)"

text \<open>One attribute: a space, the name, and the escaped value in double quotes.\<close>

definition attributeMarkup :: "attr \<Rightarrow> string" where
  "attributeMarkup a =
     '' '' @ attr_localName a @ ''=\"'' @
     (case attr_value a of None \<Rightarrow> [] | Some v \<Rightarrow> attributeEntities v) @ ''\"''"

text \<open>The markup of a tree.\<close>

fun plainMarkup :: "node \<Rightarrow> string" where
  "plainMarkup (Element localName attributes childNodes) =
     ''<'' @ localName @ concat (map attributeMarkup attributes) @
     (if childNodes = [] then ''/>''
      else ''>'' @ concat (map plainMarkup childNodes) @ ''</'' @ localName @ ''>'')"
| "plainMarkup (Document documentElement childNodes) = concat (map plainMarkup childNodes)"
| "plainMarkup (Comment data) = ''<!--'' @ data @ ''-->''"
| "plainMarkup (Text data) = textEntities data"
| "plainMarkup (DocumentFragment childNodes) = concat (map plainMarkup childNodes)"
| "plainMarkup (DocumentType name publicId systemId) =
     ''<!DOCTYPE'' @ '' '' @ name @
     (if publicId \<noteq> [] then '' PUBLIC \"'' @ publicId @ ''\"'' else []) @
     (if systemId \<noteq> [] \<and> publicId = [] then '' SYSTEM'' else []) @
     (if systemId \<noteq> [] then '' \"'' @ systemId @ ''\"'' else []) @ ''>''"
| "plainMarkup (ProcessingInstruction target data) = ''<?'' @ target @ '' '' @ data @ ''?>''"
| "plainMarkup (CData data) = ''<![CDATA['' @ data @ '']]>''"
| "plainMarkup (OtherNode t) = []"

subsection \<open>The well-formedness constraints\<close>

text \<open>
  The constraints the design lists for each node category: a tree violates them when one
  of its nodes does. These definitions follow the wording of the design, not the code,
  with \<open>sublist\<close>, \<open>suffix\<close> and membership in place of the string operations of the
  code.
\<close>

text \<open>
  The attributes of an element: a local name with a colon or outside the Name grammar, a
  value with an illegal character, or two attributes with the same local name.
\<close>

definition attributesViolate :: "algorithm \<Rightarrow> attr list \<Rightarrow> bool" where
  "attributesViolate A attributes =
     ((\<exists>a \<in> set attributes.
          CHR '':'' \<in> set (attr_localName a) \<or> \<not> xml_isName A (attr_localName a) \<or>
          (case attr_value a of None \<Rightarrow> False | Some v \<Rightarrow> \<not> xml_isLegalChar A v)) \<or>
      \<not> distinct (map attr_localName attributes))"

text \<open>The tree.\<close>

fun violatesWellFormedness :: "algorithm \<Rightarrow> node \<Rightarrow> bool" where
  "violatesWellFormedness A (Element localName attributes childNodes) =
     (CHR '':'' \<in> set localName \<or> \<not> xml_isName A localName \<or>
      attributesViolate A attributes \<or>
      (\<exists>c \<in> set childNodes. violatesWellFormedness A c))"
| "violatesWellFormedness A (Document documentElement childNodes) =
     (documentElement = None \<or> (\<exists>c \<in> set childNodes. violatesWellFormedness A c))"
| "violatesWellFormedness A (Comment data) =
     (sublist ''--'' data \<or> suffix ''-'' data \<or> \<not> xml_isLegalChar A data)"
| "violatesWellFormedness A (Text data) = (\<not> xml_isLegalChar A data)"
| "violatesWellFormedness A (DocumentFragment childNodes) =
     (\<exists>c \<in> set childNodes. violatesWellFormedness A c)"
| "violatesWellFormedness A (DocumentType name publicId systemId) =
     ((CHR 0x22 \<in> set systemId \<and> CHR 0x27 \<in> set systemId) \<or>
      \<not> xml_isPubidChar A publicId \<or> \<not> xml_isLegalChar A systemId)"
| "violatesWellFormedness A (ProcessingInstruction target data) =
     (CHR '':'' \<in> set target \<or>
      target \<in> {''xml'', ''xmL'', ''xMl'', ''xML'', ''Xml'', ''XmL'', ''XMl'', ''XML''} \<or>
      sublist ''?>'' data \<or> \<not> xml_isLegalChar A data)"
| "violatesWellFormedness A (CData data) = sublist '']]>'' data"
| "violatesWellFormedness A (OtherNode t) = False"

subsection \<open>An instance of the character-class predicates\<close>

text \<open>
  The predicates \<open>xml_isLegalChar\<close>, \<open>xml_isName\<close> and \<open>xml_isPubidChar\<close> of
  \<open>../algorithm\<close> are not among the sources. The spec calls them the grammars Char, Name
  and PubidChar of the XML specification; they are read here on 8-bit characters. The
  theorems below hold for every three predicates; this instance evaluates them at
  concrete inputs.
\<close>

text \<open>Modelled from the spec: a legal character (the production Char).\<close>

definition isChar :: "char \<Rightarrow> bool" where
  "isChar c = (c = CHR 0x09 \<or> c = CHR 0x0A \<or> c = CHR 0x0D \<or> (0x20 :: nat) \<le> of_char c)"

text \<open>Modelled from the spec: the first character of a Name (the production NameStartChar).\<close>

definition isNameStartChar :: "char \<Rightarrow> bool" where
  "isNameStartChar c =
     (let n = (of_char c :: nat) in
      c = CHR '':'' \<or> (0x41 \<le> n \<and> n \<le> 0x5A) \<or> c = CHR ''_'' \<or> (0x61 \<le> n \<and> n \<le> 0x7A) \<or>
      (0xC0 \<le> n \<and> n \<le> 0xD6) \<or> (0xD8 \<le> n \<and> n \<le> 0xF6) \<or> 0xF8 \<le> n)"

text \<open>Modelled from the spec: a further character of a Name (the production NameChar).\<close>

definition isNameChar :: "char \<Rightarrow> bool" where
  "isNameChar c =
     (let n = (of_char c :: nat) in
      isNameStartChar c \<or> c = CHR ''-'' \<or> c = CHR ''.'' \<or> (0x30 \<le> n \<and> n \<le> 0x39) \<or> n = 0xB7)"

text \<open>Modelled from the spec: a character of a public identifier (the production PubidChar).\<close>

definition isPubidChar :: "char \<Rightarrow> bool" where
  "isPubidChar c =
     (let n = (of_char c :: nat) in
      c = CHR 0x20 \<or> c = CHR 0x0D \<or> c = CHR 0x0A \<or>
      (0x61 \<le> n \<and> n \<le> 0x7A) \<or> (0x41 \<le> n \<and> n \<le> 0x5A) \<or> (0x30 \<le> n \<and> n \<le> 0x39) \<or>
      c \<in> set (''-()+,./:=?;!*#@$_%'' @ [CHR 0x27]))"

text \<open>
  Modelled from the spec: the three predicates on strings; a Name is a NameStartChar
  followed by NameChars, the other two hold when every character is in the class.
\<close>

definition xml10 :: algorithm where
  "xml10 =
     \<lparr>xml_isName = (\<lambda>s. case s of [] \<Rightarrow> False | c # cs \<Rightarrow> isNameStartChar c \<and> list_all isNameChar cs),
      xml_isLegalChar = list_all isChar,
      xml_isPubidChar = list_all isPubidChar\<rparr>"

section \<open>The XML lexer (XMLStringLexer)\<close>

text \<open>
  Modelled from the spec: the class \<open>XMLStringLexer\<close> and its tokens, whose source is
  not among the sources (only its test suite is). The definitions of this section
  follow the lexer design of the spec, construct by construct. Token names are those
  the test suite uses. Where the spec leaves a detail open it is chosen as follows: a
  name ends at whitespace or at the delimiter that can follow it, and a processing
  instruction is every \<open><?\<close> that does not start \<open><?xml\<close>.
\<close>

subsection \<open>Tokens and errors\<close>

text \<open>
  Modelled from the spec: the tokens. The attributes of an element token are an
  association list in order of first appearance; a later value for the same name
  replaces the earlier one in place.
\<close>

datatype token =
    DeclarationToken string string string
  | DocTypeToken string string string
  | ElementToken string "(string \<times> string) list" bool
  | ClosingTagToken string
  | CommentToken string
  | PIToken string string
  | CDATAToken string
  | TextToken string

text \<open>Modelled from the spec: the one error kind of the lexer, with its reason.\<close>

datatype lex_error = LexError string

text \<open>Modelled from the spec: the lexer state: the text buffer and the cursor.\<close>

record lexer =
  lexer_str :: string
  lexer_index :: nat

subsection \<open>Scanning helpers\<close>

text \<open>Modelled from the spec: the whitespace the lexer skips or tolerates.\<close>

definition isSpace :: "char \<Rightarrow> bool" where
  "isSpace c = (c = CHR '' '' \<or> c = CHR 0x09 \<or> c = CHR 0x0A \<or> c = CHR 0x0D)"

text \<open>Modelled from the spec: skipping insignificant whitespace.\<close>

definition skipSpace :: "string \<Rightarrow> string" where
  "skipSpace s = dropWhile isSpace s"

text \<open>
  Modelled from the spec: the input up to the first occurrence of a terminator, and the
  input after it; \<open>None\<close> when the terminator does not occur (unterminated input).
\<close>

fun breakOn :: "string \<Rightarrow> string \<Rightarrow> (string \<times> string) option" where
  "breakOn t [] = (if t = [] then Some ([], []) else None)"
| "breakOn t (c # cs) =
     (if prefix t (c # cs) then Some ([], drop (length t) (c # cs))
      else map_option (\<lambda>(before, after). (c # before, after)) (breakOn t cs))"

text \<open>Modelled from the spec: a value in matching single or double quotes.\<close>

definition quoted :: "string \<Rightarrow> lex_error + (string \<times> string)" where
  "quoted s =
     (case s of
        [] \<Rightarrow> Inl (LexError ''missing value'')
      | q # rest \<Rightarrow>
          if q = CHR 0x22 \<or> q = CHR 0x27 then
            (case breakOn [q] rest of
               None \<Rightarrow> Inl (LexError ''unterminated value'')
             | Some (v, rest') \<Rightarrow> Inr (v, rest'))
          else Inl (LexError ''value without quotes''))"

text \<open>
  Modelled from the spec: the equals sign and the quoted value of an attribute or a
  declaration parameter, with optional whitespace around the equals sign.
\<close>

definition equalsValue :: "string \<Rightarrow> lex_error + (string \<times> string)" where
  "equalsValue s =
     (let s1 = skipSpace s in
      if prefix ''='' s1 then quoted (skipSpace (drop 1 s1))
      else Inl (LexError ''missing equals sign''))"

subsection \<open>The constructs\<close>

text \<open>
  Modelled from the spec: the end of the declaration, \<open>?>\<close>; any further attribute name
  and unterminated input are errors.
\<close>

definition lexDeclarationEnd ::
  "string \<Rightarrow> string \<Rightarrow> string \<Rightarrow> string \<Rightarrow> lex_error + (token \<times> string)" where
  "lexDeclarationEnd version encoding standalone s =
     (let s1 = skipSpace s in
      if prefix ''?>'' s1 then Inr (DeclarationToken version encoding standalone, drop 2 s1)
      else if s1 = [] then Inl (LexError ''unterminated declaration'')
      else Inl (LexError ''unknown declaration attribute''))"

text \<open>Modelled from the spec: the optional \<open>standalone=\<close> of the declaration.\<close>

definition lexDeclarationStandalone ::
  "string \<Rightarrow> string \<Rightarrow> string \<Rightarrow> lex_error + (token \<times> string)" where
  "lexDeclarationStandalone version encoding s =
     (let s1 = skipSpace s in
      if prefix ''standalone'' s1 then
        (case equalsValue (drop 10 s1) of
           Inl e \<Rightarrow> Inl e
         | Inr (standalone, s2) \<Rightarrow> lexDeclarationEnd version encoding standalone s2)
      else lexDeclarationEnd version encoding [] s1)"

text \<open>
  Modelled from the spec: the declaration, after \<open><?xml\<close>: \<open>version=\<close> first, then the
  optional \<open>encoding=\<close> and \<open>standalone=\<close> in that order.
\<close>

definition lexDeclaration :: "string \<Rightarrow> lex_error + (token \<times> string)" where
  "lexDeclaration s =
     (let s1 = skipSpace s in
      if prefix ''version'' s1 then
        (case equalsValue (drop 7 s1) of
           Inl e \<Rightarrow> Inl e
         | Inr (version, s2) \<Rightarrow>
             (let s3 = skipSpace s2 in
              if prefix ''encoding'' s3 then
                (case equalsValue (drop 8 s3) of
                   Inl e \<Rightarrow> Inl e
                 | Inr (encoding, s4) \<Rightarrow> lexDeclarationStandalone version encoding s4)
              else lexDeclarationStandalone version [] s3))
      else if s1 = [] then Inl (LexError ''unterminated declaration'')
      else Inl (LexError ''declaration must start with version''))"

text \<open>
  Modelled from the spec: the optional internal subset in brackets, whose contents are
  skipped, and the closing \<open>>\<close> of the document type.
\<close>

definition lexDocTypeEnd ::
  "string \<Rightarrow> string \<Rightarrow> string \<Rightarrow> string \<Rightarrow> lex_error + (token \<times> string)" where
  "lexDocTypeEnd name publicId systemId s =
     (let s1 = skipSpace s in
      if prefix ''['' s1 then
        (case breakOn '']'' (drop 1 s1) of
           None \<Rightarrow> Inl (LexError ''unterminated internal subset'')
         | Some (internal, s2) \<Rightarrow>
             (let s3 = skipSpace s2 in
              if prefix ''>'' s3 then Inr (DocTypeToken name publicId systemId, drop 1 s3)
              else Inl (LexError ''unterminated document type'')))
      else if prefix ''>'' s1 then Inr (DocTypeToken name publicId systemId, drop 1 s1)
      else Inl (LexError ''unterminated document type''))"

text \<open>
  Modelled from the spec: the document type, after \<open><!DOCTYPE\<close>: the name, then
  \<open>PUBLIC\<close> with two quoted identifiers or \<open>SYSTEM\<close> with one, or neither.
\<close>

definition lexDocType :: "string \<Rightarrow> lex_error + (token \<times> string)" where
  "lexDocType s =
     (let s1 = skipSpace s;
          name = takeWhile (\<lambda>c. \<not> isSpace c \<and> c \<noteq> CHR ''['' \<and> c \<noteq> CHR ''>'') s1;
          s2 = skipSpace (dropWhile (\<lambda>c. \<not> isSpace c \<and> c \<noteq> CHR ''['' \<and> c \<noteq> CHR ''>'') s1)
      in
        if prefix ''PUBLIC'' s2 then
          (case quoted (skipSpace (drop 6 s2)) of
             Inl e \<Rightarrow> Inl e
           | Inr (publicId, s3) \<Rightarrow>
               (case quoted (skipSpace s3) of
                  Inl e \<Rightarrow> Inl e
                | Inr (systemId, s4) \<Rightarrow> lexDocTypeEnd name publicId systemId s4))
        else if prefix ''SYSTEM'' s2 then
          (case quoted (skipSpace (drop 6 s2)) of
             Inl e \<Rightarrow> Inl e
           | Inr (systemId, s3) \<Rightarrow> lexDocTypeEnd name [] systemId s3)
        else lexDocTypeEnd name [] [] s2)"

text \<open>Modelled from the spec: the comment, after \<open><!--\<close>.\<close>

definition lexComment :: "string \<Rightarrow> lex_error + (token \<times> string)" where
  "lexComment s =
     (case breakOn ''-->'' s of
        None \<Rightarrow> Inl (LexError ''unterminated comment'')
      | Some (data, rest) \<Rightarrow> Inr (CommentToken data, rest))"

text \<open>Modelled from the spec: the CDATA section, after \<open><![CDATA[\<close>.\<close>

definition lexCDATA :: "string \<Rightarrow> lex_error + (token \<times> string)" where
  "lexCDATA s =
     (case breakOn '']]>'' s of
        None \<Rightarrow> Inl (LexError ''unterminated CDATA section'')
      | Some (data, rest) \<Rightarrow> Inr (CDATAToken data, rest))"

text \<open>
  Modelled from the spec: the processing instruction, after \<open><?\<close>: everything up to
  the first \<open>?>\<close>, split into the target and the data at the first whitespace.
\<close>

definition lexPI :: "string \<Rightarrow> lex_error + (token \<times> string)" where
  "lexPI s =
     (case breakOn ''?>'' s of
        None \<Rightarrow> Inl (LexError ''unterminated processing instruction'')
      | Some (content, rest) \<Rightarrow>
          Inr (PIToken (takeWhile (\<lambda>c. \<not> isSpace c) content)
                 (skipSpace (dropWhile (\<lambda>c. \<not> isSpace c) content)), rest))"

text \<open>Modelled from the spec: the closing tag, after \<open></\<close>.\<close>

definition lexClosingTag :: "string \<Rightarrow> lex_error + (token \<times> string)" where
  "lexClosingTag s =
     (let name = takeWhile (\<lambda>c. \<not> isSpace c \<and> c \<noteq> CHR ''>'') s;
          s1 = skipSpace (dropWhile (\<lambda>c. \<not> isSpace c \<and> c \<noteq> CHR ''>'') s)
      in
        if prefix ''>'' s1 then Inr (ClosingTagToken name, drop 1 s1)
        else Inl (LexError ''unterminated closing tag''))"

text \<open>
  Modelled from the spec: the attributes of an opening tag, up to \<open>/>\<close> or \<open>>\<close>. Each
  round consumes one name with its quoted value; a name without an equals sign or a
  value without quotes is an error.
\<close>

function lexAttributes ::
  "(string \<times> string) list \<Rightarrow> string \<Rightarrow> lex_error + ((string \<times> string) list \<times> bool \<times> string)" where
  "lexAttributes attrs s =
     (if prefix ''/>'' (skipSpace s) then Inr (attrs, True, drop 2 (skipSpace s))
      else if prefix ''>'' (skipSpace s) then Inr (attrs, False, drop 1 (skipSpace s))
      else if skipSpace s = [] then Inl (LexError ''unterminated opening tag'')
      else
        (case equalsValue
                (dropWhile (\<lambda>c. \<not> isSpace c \<and> c \<noteq> CHR ''='') (skipSpace s)) of
           Inl e \<Rightarrow> Inl e
         | Inr (v, rest) \<Rightarrow>
             lexAttributes
               (AList.update (takeWhile (\<lambda>c. \<not> isSpace c \<and> c \<noteq> CHR ''='') (skipSpace s)) v attrs)
               rest))"
  by pat_completeness auto

text \<open>Every round of the attribute loop leaves a shorter input.\<close>

lemma breakOn_length: "breakOn t s = Some (before, after) \<Longrightarrow> length after \<le> length s"
  by (induction s arbitrary: before) (auto split: if_splits)

lemma skipSpace_length: "length (skipSpace s) \<le> length s"
  by (simp add: skipSpace_def length_dropWhile_le)

lemma quoted_length: "quoted s = Inr (v, rest) \<Longrightarrow> length rest < length s"
  by (auto simp: quoted_def split: list.splits if_splits option.splits
      dest!: breakOn_length)

lemma equalsValue_length: "equalsValue s = Inr (v, rest) \<Longrightarrow> length rest < length s"
proof -
  assume ok: "equalsValue s = Inr (v, rest)"
  then have "length rest < length (skipSpace (drop 1 (skipSpace s)))"
    by (auto simp: equalsValue_def Let_def split: if_splits dest: quoted_length)
  also have "\<dots> \<le> length (drop 1 (skipSpace s))"
    by (rule skipSpace_length)
  also have "\<dots> \<le> length s"
    using skipSpace_length [of s] by simp
  finally show ?thesis .
qed

termination lexAttributes
proof (relation "measure (\<lambda>(attrs, s). length s)")
  show "wf (measure (\<lambda>(attrs, s). length s))" by simp
next
  fix attrs :: "(string \<times> string) list" and s x2 x y
  assume "equalsValue (dropWhile (\<lambda>c. \<not> isSpace c \<and> c \<noteq> CHR ''='') (skipSpace s)) = Inr x2"
    and "(x, y) = x2"
  then have "length y < length (dropWhile (\<lambda>c. \<not> isSpace c \<and> c \<noteq> CHR ''='') (skipSpace s))"
    by (auto dest: equalsValue_length)
  also have "\<dots> \<le> length (skipSpace s)"
    by (rule length_dropWhile_le)
  also have "\<dots> \<le> length s"
    by (rule skipSpace_length)
  finally show "((AList.update (takeWhile (\<lambda>c. \<not> isSpace c \<and> c \<noteq> CHR ''='') (skipSpace s)) x attrs, y),
      attrs, s) \<in> measure (\<lambda>(attrs, s). length s)"
    by simp
qed

text \<open>Modelled from the spec: the opening or self-closing tag, after \<open><\<close>.\<close>

definition lexOpenTag :: "string \<Rightarrow> lex_error + (token \<times> string)" where
  "lexOpenTag s =
     (case lexAttributes []
             (dropWhile (\<lambda>c. \<not> isSpace c \<and> c \<noteq> CHR ''>'' \<and> c \<noteq> CHR ''/'') s) of
        Inl e \<Rightarrow> Inl e
      | Inr (attrs, selfClosing, rest) \<Rightarrow>
          Inr (ElementToken
                 (takeWhile (\<lambda>c. \<not> isSpace c \<and> c \<noteq> CHR ''>'' \<and> c \<noteq> CHR ''/'') s)
                 attrs selfClosing, rest))"

text \<open>Modelled from the spec: the text run: up to the next \<open><\<close>, never an error.\<close>

definition lexText :: "string \<Rightarrow> lex_error + (token \<times> string)" where
  "lexText s =
     Inr (TextToken (takeWhile (\<lambda>c. c \<noteq> CHR ''<'') s), dropWhile (\<lambda>c. c \<noteq> CHR ''<'') s)"

subsection \<open>The next token\<close>

text \<open>Modelled from the spec: the branch on the literal prefix at the cursor, in the order the spec gives.\<close>

definition lexAt :: "string \<Rightarrow> lex_error + (token \<times> string)" where
  "lexAt s =
     (if prefix ''<?xml'' s then lexDeclaration (drop 5 s)
      else if prefix ''<?'' s then lexPI (drop 2 s)
      else if prefix ''<!DOCTYPE'' s then lexDocType (drop 9 s)
      else if prefix ''<!--'' s then lexComment (drop 4 s)
      else if prefix ''<![CDATA['' s then lexCDATA (drop 9 s)
      else if prefix ''</'' s then lexClosingTag (drop 2 s)
      else if prefix ''<'' s then lexOpenTag (drop 1 s)
      else lexText s)"

text \<open>
  Modelled from the spec: \<open>nextToken\<close>: \<open>None\<close> is the end-of-input marker; a token comes with the lexer
  advanced past it; an error ends the stream.
\<close>

definition nextToken :: "lexer \<Rightarrow> lex_error + (token option \<times> lexer)" where
  "nextToken l =
     (let s = drop (lexer_index l) (lexer_str l) in
      if s = [] then Inr (None, l)
      else
        (case lexAt s of
           Inl e \<Rightarrow> Inl e
         | Inr (t, rest) \<Rightarrow>
             Inr (Some t, l\<lparr>lexer_index := length (lexer_str l) - length rest\<rparr>)))"

section \<open>Properties of the serializer\<close>

subsection \<open>Text\<close>

lemma serializeText_loop_concat:
  "serializeText_loop markup data =
     markup @ concat (map (\<lambda>c. if c = CHR ''&'' then ''&amp;'' else if c = CHR ''<'' then ''&lt;''
        else if c = CHR ''>'' then ''&gt;'' else [c]) data)"
  by (induction data arbitrary: markup) simp_all

text \<open>
  C1. The serialization of a Text node is its data with every character replaced on its
  own, in one pass: \<open>&\<close> by \<open>&amp;\<close>, \<open><\<close> by \<open>&lt;\<close>, \<open>>\<close> by \<open>&gt;\<close>, any other
  character (the two quotes too) by itself. So \<open>a&b\<close> gives \<open>a&amp;b\<close>, and that
  output taken as new text gives \<open>a&amp;amp;b\<close>. With \<open>requireWellFormed\<close> the
  serialization fails exactly when the data fails the legal-character test, and
  otherwise gives the same string.
\<close>

theorem text_escaped_once:
  "serializeNode A (Text data) False =
     Inr (concat (map (\<lambda>c. if c = CHR ''&'' then ''&amp;'' else if c = CHR ''<'' then ''&lt;''
        else if c = CHR ''>'' then ''&gt;'' else [c]) data))
   \<and> serializeNode A (Text data) True =
     (if xml_isLegalChar A data
      then Inr (concat (map (\<lambda>c. if c = CHR ''&'' then ''&amp;'' else if c = CHR ''<'' then ''&lt;''
        else if c = CHR ''>'' then ''&gt;'' else [c]) data))
      else Inl InvalidTextData)
   \<and> serializeNode A (Text ''a&b'') False = Inr ''a&amp;b''
   \<and> serializeNode A (Text ''a&amp;b'') False = Inr ''a&amp;amp;b''
   \<and> serializeNode A (Text (''say \"x\" '' @ [CHR 0x27])) False = Inr (''say \"x\" '' @ [CHR 0x27])"
  by (simp add: serializeText_def serializeText_loop_concat)

subsection \<open>Attribute values\<close>

lemma serializeAttributeValue_loop_concat:
  "serializeAttributeValue_loop result v =
     result @ concat (map (\<lambda>c. if c = CHR 0x22 then ''&quot;'' else if c = CHR ''&'' then ''&amp;''
        else if c = CHR ''<'' then ''&lt;'' else if c = CHR ''>'' then ''&gt;'' else [c]) v)"
  by (induction v arbitrary: result) simp_all

text \<open>
  C2. The serialization of an attribute value replaces \<open>&\<close> by \<open>&amp;\<close>, the double
  quote by \<open>&quot;\<close>, \<open><\<close> by \<open>&lt;\<close> and \<open>>\<close> by \<open>&gt;\<close>, and leaves every other
  character as it is. A null value gives the empty string under both values of the
  flag. With \<open>requireWellFormed\<close> a value that fails the legal-character test gives the
  failure and no output.
\<close>

theorem attribute_value_escaped:
  "serializeAttributeValue A None requireWellFormed = Inr []
   \<and> serializeAttributeValue A (Some v) False =
     Inr (concat (map (\<lambda>c. if c = CHR ''&'' then ''&amp;'' else if c = CHR 0x22 then ''&quot;''
        else if c = CHR ''<'' then ''&lt;'' else if c = CHR ''>'' then ''&gt;'' else [c]) v))
   \<and> serializeAttributeValue A (Some v) True =
     (if xml_isLegalChar A v
      then Inr (concat (map (\<lambda>c. if c = CHR ''&'' then ''&amp;'' else if c = CHR 0x22 then ''&quot;''
        else if c = CHR ''<'' then ''&lt;'' else if c = CHR ''>'' then ''&gt;'' else [c]) v))
      else Inl InvalidAttrValue)"
  by (simp add: serializeAttributeValue_def serializeAttributeValue_loop_concat)
   (rule arg_cong [where f = concat], rule map_cong, auto)

subsection \<open>Substring search\<close>

lemma indexOf_lower: "- 1 \<le> indexOf s sub"
  by (induction s) (simp_all add: Let_def)

lemma indexOf_found: "(indexOf s sub \<noteq> - 1) = sublist sub s"
proof (induction s)
  case Nil
  then show ?case by simp
next
  case (Cons c cs)
  have "indexOf cs sub + 1 \<noteq> - 1"
    using indexOf_lower [of cs sub] by arith
  with Cons show ?case
    by (auto simp: Let_def sublist_Cons_right)
qed

subsection \<open>CDATA sections\<close>

text \<open>
  C10. With \<open>requireWellFormed\<close> the serialization of a CDATASection node fails if and
  only if its data contains \<open>]]>\<close>. The legal-character test is never consulted: even
  under a test that rejects every string, the data U+0000 is serialized, where a Text
  node, a Comment node and an attribute value with the same data fail. The output, when
  there is one, is \<open><![CDATA[\<close>, the data as it is, and \<open>]]>\<close>.
\<close>

theorem cdata_rejects_only_terminator:
  "(\<exists>e. serializeNode A (CData data) True = Inl e) = sublist '']]>'' data
   \<and> serializeNode A (CData data) True =
       (if sublist '']]>'' data then Inl InvalidCData else Inr (''<![CDATA['' @ data @ '']]>''))
   \<and> serializeNode A (CData data) False = Inr (''<![CDATA['' @ data @ '']]>'')
   \<and> serializeNode (A\<lparr>xml_isLegalChar := \<lambda>s. False\<rparr>) (CData [CHR 0x00]) True =
       Inr (''<![CDATA['' @ [CHR 0x00] @ '']]>'')
   \<and> serializeNode (A\<lparr>xml_isLegalChar := \<lambda>s. False\<rparr>) (Text [CHR 0x00]) True = Inl InvalidTextData
   \<and> serializeNode (A\<lparr>xml_isLegalChar := \<lambda>s. False\<rparr>) (Comment [CHR 0x00]) True =
       Inl InvalidCommentData
   \<and> serializeAttributeValue (A\<lparr>xml_isLegalChar := \<lambda>s. False\<rparr>) (Some [CHR 0x00]) True =
       Inl InvalidAttrValue"
  by (simp add: serializeCData_def serializeText_def serializeComment_def
      serializeAttributeValue_def indexOf_found sublist_Cons_right del: indexOf.simps)

subsection \<open>Document types\<close>


subsection \<open>The loop over the children\<close>

lemma serializeChildren_Inr:
  "(serializeChildren A markup cs rwf = Inr out) =
     (\<exists>ss. map (\<lambda>c. serializeNode A c rwf) cs = map Inr ss \<and> out = markup @ concat ss)"
proof (induction cs arbitrary: markup)
  case Nil
  then show ?case by auto
next
  case (Cons c cs)
  show ?case
  proof (cases "serializeNode A c rwf")
    case (Inl e)
    then show ?thesis by auto
  next
    case (Inr s)
    then show ?thesis
      by (auto simp: Cons Cons_eq_map_conv)
  qed
qed

lemma serializeChildren_Inl:
  "serializeChildren A markup cs rwf = Inl e \<Longrightarrow> \<exists>c \<in> set cs. serializeNode A c rwf = Inl e"
  by (induction cs arbitrary: markup) (auto split: sum.splits)

lemma serializeChildren_fails:
  "c \<in> set cs \<Longrightarrow> serializeNode A c rwf = Inl e \<Longrightarrow> serializeChildren A markup cs rwf \<noteq> Inr out"
  by (induction cs arbitrary: markup) (auto split: sum.splits)

subsection \<open>Serialization without checks\<close>

lemma serializeAttributes_loop_unchecked:
  "serializeAttributes_loop A False None result attributes =
     Inr (result @ concat (map (\<lambda>a. '' '' @ attr_localName a @ ''=\"'' @
        (case attr_value a of None \<Rightarrow> [] | Some v \<Rightarrow> serializeAttributeValue_loop [] v) @ ''\"'')
        attributes))"
  by (induction attributes arbitrary: result)
     (simp_all add: serializeAttributeValue_def split: option.splits)

lemma serializeAttributes_unchecked:
  "serializeAttributes A attributes False =
     Inr (concat (map (\<lambda>a. '' '' @ attr_localName a @ ''=\"'' @
        (case attr_value a of None \<Rightarrow> [] | Some v \<Rightarrow> serializeAttributeValue_loop [] v) @ ''\"'')
        attributes))"
  by (simp add: serializeAttributes_def serializeAttributes_loop_unchecked)

lemma leaf_unchecked:
  "\<exists>s. serializeComment A d False = Inr s"
  "\<exists>s. serializeText A d False = Inr s"
  "\<exists>s. serializeDocumentType A n p sy False = Inr s"
  "\<exists>s. serializeProcessingInstruction A t d False = Inr s"
  "\<exists>s. serializeCData A d False = Inr s"
  by (simp_all add: serializeComment_def serializeText_def serializeDocumentType_def
      serializeProcessingInstruction_def serializeCData_def)

lemma children_all_Inr:
  "(\<And>c. c \<in> set cs \<Longrightarrow> \<exists>s. serializeNode A c rwf = Inr s) \<Longrightarrow>
     \<exists>ss. map (\<lambda>c. serializeNode A c rwf) cs = map Inr ss"
proof (induction cs)
  case Nil
  then show ?case by simp
next
  case (Cons c cs)
  then obtain s ss where "serializeNode A c rwf = Inr s"
    and "map (\<lambda>c. serializeNode A c rwf) cs = map Inr ss"
    by force
  then have "map (\<lambda>c. serializeNode A c rwf) (c # cs) = map Inr (s # ss)" by simp
  then show ?case by blast
qed

lemma unchecked_succeeds:
  "\<not> hasUnknownCategory n \<Longrightarrow> \<exists>s. serializeNode A n False = Inr s"
proof (induction n)
  case (Element l as cs)
  then have "\<exists>ss. map (\<lambda>c. serializeNode A c False) cs = map Inr ss"
    by (intro children_all_Inr) auto
  then obtain ss where ss: "map (\<lambda>c. serializeNode A c False) cs = map Inr ss" ..
  obtain a where a: "serializeAttributes A as False = Inr a"
    by (simp add: serializeAttributes_unchecked)
  from ss have "\<exists>out. serializeChildren A (''<'' @ l @ a @ ''>'') cs False = Inr out"
    unfolding serializeChildren_Inr by blast
  then obtain out where "serializeChildren A (''<'' @ l @ a @ ''>'') cs False = Inr out" ..
  with a show ?case by simp
next
  case (Document d cs)
  then have "\<exists>ss. map (\<lambda>c. serializeNode A c False) cs = map Inr ss"
    by (intro children_all_Inr) auto
  then show ?case
    by (simp add: serializeChildren_Inr)
next
  case (DocumentFragment cs)
  then have "\<exists>ss. map (\<lambda>c. serializeNode A c False) cs = map Inr ss"
    by (intro children_all_Inr) auto
  then show ?case
    by (simp add: serializeChildren_Inr)
qed (simp_all add: leaf_unchecked)

lemma unchecked_error:
  "serializeNode A n False = Inl e \<Longrightarrow> hasUnknownCategory n \<and> (\<exists>t. e = UnknownNodeType t)"
proof (induction n)
  case (Element l as cs)
  then show ?case
    by (auto simp: serializeAttributes_unchecked split: sum.splits if_splits
        dest!: serializeChildren_Inl)
next
  case (Document d cs)
  then show ?case
    by (auto dest!: serializeChildren_Inl)
next
  case (DocumentFragment cs)
  then show ?case
    by (auto dest!: serializeChildren_Inl)
qed (auto simp: serializeComment_def serializeText_def serializeDocumentType_def
      serializeProcessingInstruction_def serializeCData_def)

lemma unknown_category_fails:
  "hasUnknownCategory n \<Longrightarrow> \<exists>e. serializeNode A n rwf = Inl e"
proof (induction n)
  case (Element l as cs)
  then obtain c e where c: "c \<in> set cs" "serializeNode A c rwf = Inl e" by fastforce
  then have nf: "serializeChildren A m cs rwf \<noteq> Inr out" for m out
    by (rule serializeChildren_fails)
  moreover have "cs \<noteq> []" using c by auto
  ultimately show ?case
    by (auto split: sum.splits)
next
  case (Document d cs)
  then obtain c e where "c \<in> set cs" "serializeNode A c rwf = Inl e" by fastforce
  then have "serializeChildren A m cs rwf \<noteq> Inr out" for m out
    by (rule serializeChildren_fails)
  then show ?case by (auto intro: sum.exhaust)
next
  case (DocumentFragment cs)
  then obtain c e where "c \<in> set cs" "serializeNode A c rwf = Inl e" by fastforce
  then have "serializeChildren A m cs rwf \<noteq> Inr out" for m out
    by (rule serializeChildren_fails)
  then show ?case by (auto intro: sum.exhaust)
qed simp_all

subsection \<open>Documents\<close>

text \<open>
  C7. The serialization of a Document node whose \<open>documentElement\<close> is null fails with
  \<open>requireWellFormed\<close>. Without it, when every child is a tree of the eight categories
  (comments, processing instructions and a doctype are), it succeeds and returns the
  serializations of the children, one after the other in child order, with nothing
  around them.
\<close>

theorem document_without_element:
  "serializeNode A (Document None childNodes) True = Inl MissingDocumentElement
   \<and> ((\<forall>c \<in> set childNodes. \<not> hasUnknownCategory c) \<longrightarrow>
        (\<exists>ss. map (\<lambda>c. serializeNode A c False) childNodes = map Inr ss
           \<and> serializeNode A (Document None childNodes) False = Inr (concat ss)))"
proof -
  have "\<exists>ss. map (\<lambda>c. serializeNode A c False) childNodes = map Inr ss"
    if "\<forall>c \<in> set childNodes. \<not> hasUnknownCategory c"
    using that by (intro children_all_Inr) (auto intro: unchecked_succeeds)
  then show ?thesis
    by (auto simp: serializeChildren_Inr)
qed

theorem document_without_element_witness:
  "\<not> hasUnknownCategory (Comment ''a'')
   \<and> \<not> hasUnknownCategory (ProcessingInstruction ''t'' ''d'')
   \<and> \<not> hasUnknownCategory (DocumentType ''r'' [] [])
   \<and> serializeNode xml10 (Document None [Comment ''a'', ProcessingInstruction ''t'' ''d'',
        DocumentType ''r'' [] []]) True = Inl MissingDocumentElement
   \<and> serializeNode xml10 (Document None [Comment ''a'', ProcessingInstruction ''t'' ''d'',
        DocumentType ''r'' [] []]) False = Inr ''<!--a--><?t d?><!DOCTYPE r>''"
  using document_without_element
    [of xml10 "[Comment ''a'', ProcessingInstruction ''t'' ''d'', DocumentType ''r'' [] []]"]
  by (simp add: serializeComment_def serializeProcessingInstruction_def serializeDocumentType_def)

subsection \<open>The public operation\<close>

text \<open>
  C5. \<open>serializeToString\<close> returns the string of the serialization algorithm run
  without checks, and turns every failure of the algorithm, whatever its cause, into
  the one error \<open>InvalidStateError\<close>. It fails exactly when some node of the tree is in
  none of the eight categories.
\<close>

theorem serializeToString_invalid_state:
  "serializeToString A root =
     (case serializeNode A root False of Inl e \<Rightarrow> Inl InvalidStateError | Inr s \<Rightarrow> Inr s)
   \<and> (serializeToString A root = Inl InvalidStateError) = hasUnknownCategory root"
proof -
  have "(\<exists>e. serializeNode A root False = Inl e) = hasUnknownCategory root"
    using unchecked_error [of A root] unknown_category_fails [of root A False] by blast
  then show ?thesis
    by (auto simp: serializeToString_def xmlSerialization_def split: sum.splits)
qed

subsection \<open>Elements\<close>

lemma sublist_single: "sublist [c] s = (c \<in> set s)"
  by (induction s) (auto simp: sublist_Cons_right)

lemma indexOf_char: "(indexOf s [c] \<noteq> - 1) = (c \<in> set s)"
  by (simp only: indexOf_found sublist_single)

lemma serializeChildren_Inl_no_list:
  "serializeChildren A m cs rwf = Inl e \<Longrightarrow> map (\<lambda>c. serializeNode A c rwf) cs \<noteq> map Inr ss"
  using serializeChildren_Inr [of A m cs rwf "m @ concat ss"] by auto

text \<open>
  C3. Under either value of \<open>requireWellFormed\<close>, the serialization of an Element node
  returns \<open>out\<close> exactly when the name check passes (it is only made with the flag),
  the attributes serialize to some \<open>attrs\<close>, every child serializes, and \<open>out\<close> is
  \<open><\<close>, the local name, \<open>attrs\<close> and \<open>/>\<close> for an element without children (so there is
  no end tag), and otherwise \<open><\<close>, the local name, \<open>attrs\<close>, \<open>>\<close>, the serializations
  of the children in child order, \<open></\<close>, the local name and \<open>>\<close>.
\<close>

theorem element_markup:
  "(serializeNode A (Element localName attributes childNodes) requireWellFormed = Inr out) =
     (\<not> (requireWellFormed \<and> (CHR '':'' \<in> set localName \<or> \<not> xml_isName A localName)) \<and>
      (\<exists>attrs ss.
         serializeAttributes A attributes requireWellFormed = Inr attrs \<and>
         map (\<lambda>c. serializeNode A c requireWellFormed) childNodes = map Inr ss \<and>
         out = (if childNodes = [] then ''<'' @ localName @ attrs @ ''/>''
                else ''<'' @ localName @ attrs @ ''>'' @ concat ss @ ''</'' @ localName @ ''>'')))"
proof (cases "serializeAttributes A attributes requireWellFormed")
  case (Inl e)
  then show ?thesis by simp
next
  case (Inr attrs)
  show ?thesis
  proof (cases "childNodes = []")
    case True
    with Inr show ?thesis
      using indexOf_char [of localName "CHR '':''"] by auto
  next
    case False
    with Inr show ?thesis
      using indexOf_char [of localName "CHR '':''"]
      by (auto simp: serializeChildren_Inr split: sum.splits simp del: indexOf.simps
          dest: serializeChildren_Inl_no_list)
  qed
qed

subsection \<open>Attributes under the well-formedness flag\<close>

lemma serializeAttributes_loop_append:
  "serializeAttributes_loop A True (Some keys) result (pre @ rest) =
     (case serializeAttributes_loop A True (Some keys) result pre of
        Inl e \<Rightarrow> Inl e
      | Inr r \<Rightarrow> serializeAttributes_loop A True
                  (Some (rev (map attr_localName pre) @ keys)) r rest)"
  by (induction pre arbitrary: keys result) (auto split: sum.splits simp del: indexOf.simps)

text \<open>
  The test \<open>attr.localName in localNameSet\<close> also holds for a name the empty object
  inherits: a single attribute of such a name is reported as a duplicate.
\<close>

lemma inherited_name_reported_duplicate:
  "serializeAttributes A [\<lparr>attr_localName = ''constructor'', attr_value = None\<rparr>] True =
     Inl DuplicateAttributes"
  by (simp add: serializeAttributes_def inObject_def objectPrototypeKeys_def)

lemma serializeAttributes_loop_distinct:
  "serializeAttributes_loop A True (Some keys) result attributes = Inr out \<Longrightarrow>
     distinct (map attr_localName attributes) \<and>
     set (map attr_localName attributes) \<inter> set keys = {}"
proof (induction attributes arbitrary: keys result)
  case Nil
  then show ?case by simp
next
  case (Cons a rest)
  from Cons.prems obtain r where
    a: "\<not> inObject (attr_localName a) keys"
    and r: "serializeAttributes_loop A True (Some (attr_localName a # keys)) r rest = Inr out"
    by (auto split: if_splits sum.splits simp del: indexOf.simps)
  from Cons.IH [OF r] a show ?case
    by (auto simp: inObject_def)
qed

subsection \<open>Serialization without checks is plain concatenation\<close>

lemma test_xml_i_eq:
  "test_xml_i t = (t \<in> {''xml'', ''xmL'', ''xMl'', ''xML'', ''Xml'', ''XmL'', ''XMl'', ''XML''})"
  by (induction t rule: test_xml_i.induct) auto

lemma serializeAttributes_plain:
  "serializeAttributes A attributes False = Inr (concat (map attributeMarkup attributes))"
proof -
  have "serializeAttributeValue_loop [] v = attributeEntities v" for v
    unfolding attributeEntities_def serializeAttributeValue_loop_concat
    by (simp, rule arg_cong [where f = concat], rule map_cong, auto)
  then show ?thesis
    by (simp add: serializeAttributes_unchecked attributeMarkup_def [abs_def] cong: option.case_cong)
qed

lemma children_plain:
  assumes "\<And>c. c \<in> set cs \<Longrightarrow> serializeNode A c False = Inr (plainMarkup c)"
  shows "serializeChildren A m cs False = Inr (m @ concat (map plainMarkup cs))"
proof -
  from assms have "map (\<lambda>c. serializeNode A c False) cs = map Inr (map plainMarkup cs)"
    by simp
  then show ?thesis
    unfolding serializeChildren_Inr by blast
qed

lemma unchecked_is_plain:
  "\<not> hasUnknownCategory n \<Longrightarrow> serializeNode A n False = Inr (plainMarkup n)"
proof (induction n)
  case (Element l as cs)
  then have "serializeChildren A m cs False = Inr (m @ concat (map plainMarkup cs))" for m
    by (intro children_plain) auto
  then show ?case
    by (simp add: serializeAttributes_plain)
next
  case (Document d cs)
  then have "serializeChildren A m cs False = Inr (m @ concat (map plainMarkup cs))" for m
    by (intro children_plain) auto
  then show ?case by simp
next
  case (DocumentFragment cs)
  then have "serializeChildren A m cs False = Inr (m @ concat (map plainMarkup cs))" for m
    by (intro children_plain) auto
  then show ?case by simp
next
  case (Text d)
  show ?case
    by (simp add: serializeText_def serializeText_loop_concat textEntities_def)
qed (simp_all add: serializeComment_def serializeDocumentType_def
      serializeProcessingInstruction_def serializeCData_def)


subsection \<open>Every violation is caught under the flag\<close>

lemma serializeAttributes_loop_checked:
  "serializeAttributes_loop A True keys result attributes = Inr out \<Longrightarrow> a \<in> set attributes \<Longrightarrow>
     CHR '':'' \<notin> set (attr_localName a) \<and> xml_isName A (attr_localName a) \<and>
     (\<forall>v. attr_value a = Some v \<longrightarrow> xml_isLegalChar A v)"
proof (induction attributes arbitrary: keys result)
  case Nil
  then show ?case by simp
next
  case (Cons b rest)
  from Cons.prems(1) obtain keys' r where
    b: "indexOf (attr_localName b) '':'' = - 1" "xml_isName A (attr_localName b)"
      "serializeAttributeValue A (attr_value b) True \<noteq> Inl InvalidAttrValue"
    and r: "serializeAttributes_loop A True keys' r rest = Inr out"
    by (auto split: if_splits sum.splits simp: Let_def serializeAttributeValue_def
        simp del: indexOf.simps)
  show ?case
  proof (cases "a = b")
    case True
    with b indexOf_char [of "attr_localName b" "CHR '':''"] show ?thesis
      by (auto simp: serializeAttributeValue_def split: if_splits)
  next
    case False
    with Cons.prems(2) have "a \<in> set rest" by simp
    with Cons.IH [OF r] show ?thesis by simp
  qed
qed

lemma attributesViolate_fails:
  assumes "attributesViolate A attributes"
  shows "serializeAttributes A attributes True \<noteq> Inr out"
proof
  assume ok: "serializeAttributes A attributes True = Inr out"
  then have "distinct (map attr_localName attributes)"
    unfolding serializeAttributes_def using serializeAttributes_loop_distinct by fastforce
  moreover from ok have "\<forall>a \<in> set attributes.
      CHR '':'' \<notin> set (attr_localName a) \<and> xml_isName A (attr_localName a) \<and>
      (\<forall>v. attr_value a = Some v \<longrightarrow> xml_isLegalChar A v)"
    unfolding serializeAttributes_def using serializeAttributes_loop_checked by fastforce
  ultimately show False
    using assms unfolding attributesViolate_def by (auto split: option.splits)
qed

lemma violation_fails:
  "violatesWellFormedness A n \<Longrightarrow> \<exists>e. serializeNode A n True = Inl e"
proof (induction n)
  case (Element l as cs)
  show ?case
  proof (cases "CHR '':'' \<in> set l \<or> \<not> xml_isName A l")
    case True
    then show ?thesis
      using indexOf_char [of l "CHR '':''"] by auto
  next
    case name: False
    show ?thesis
    proof (cases "attributesViolate A as")
      case True
      then have "serializeAttributes A as True \<noteq> Inr out" for out
        by (rule attributesViolate_fails)
      then show ?thesis
        by (auto split: sum.splits simp del: indexOf.simps)
    next
      case False
      with name Element.prems obtain c where c: "c \<in> set cs" "violatesWellFormedness A c"
        by auto
      with Element.IH obtain e where "serializeNode A c True = Inl e" by blast
      with c have "serializeChildren A m cs True \<noteq> Inr out" for m out
        by (intro serializeChildren_fails)
      moreover have "cs \<noteq> []" using c by auto
      ultimately show ?thesis
        by (auto split: sum.splits simp del: indexOf.simps)
    qed
  qed
next
  case (Document d cs)
  show ?case
  proof (cases "d = None")
    case True
    then show ?thesis by simp
  next
    case False
    with Document.prems obtain c where c: "c \<in> set cs" "violatesWellFormedness A c"
      by auto
    with Document.IH obtain e where "serializeNode A c True = Inl e" by blast
    with c have "serializeChildren A m cs True \<noteq> Inr out" for m out
      by (intro serializeChildren_fails)
    then show ?thesis by (auto intro: sum.exhaust)
  qed
next
  case (DocumentFragment cs)
  then obtain c where c: "c \<in> set cs" "violatesWellFormedness A c"
    by auto
  with DocumentFragment.IH obtain e where "serializeNode A c True = Inl e" by blast
  with c have "serializeChildren A m cs True \<noteq> Inr out" for m out
    by (intro serializeChildren_fails)
  then show ?case by (auto intro: sum.exhaust)
next
  case (Comment d)
  then show ?case
    by (auto simp: serializeComment_def indexOf_found endsWith_def simp del: indexOf.simps)
next
  case (DocumentType nm p sy)
  then show ?case
    using indexOf_char [of sy "CHR 0x22"] indexOf_char [of sy "CHR 0x27"]
    by (auto simp: serializeDocumentType_def simp del: indexOf.simps)
next
  case (ProcessingInstruction t d)
  then show ?case
    using indexOf_char [of t "CHR '':''"] test_xml_i_eq [of t]
    by (auto simp: serializeProcessingInstruction_def indexOf_found simp del: indexOf.simps)
qed (auto simp: serializeText_def serializeCData_def indexOf_found simp del: indexOf.simps)

subsection \<open>The flag gates every check\<close>

text \<open>
  C4. Every conformance check is gated on \<open>requireWellFormed\<close>. Without the flag the
  serialization of a tree of the eight node categories succeeds, whatever constraint
  the tree violates, and is the plain concatenation of its markup, the data as it is
  but for the entity replacements; the only failure possible without the flag is the
  unknown node type, which is no conformance check. With the flag, a tree that violates
  any of the constraints fails.
\<close>

theorem checks_gated_on_flag:
  "(\<not> hasUnknownCategory n \<longrightarrow> serializeNode A n False = Inr (plainMarkup n))
   \<and> (violatesWellFormedness A n \<longrightarrow> (\<exists>e. serializeNode A n True = Inl e))
   \<and> (\<forall>e. serializeNode A n False = Inl e \<longrightarrow> (\<exists>t. e = UnknownNodeType t))"
  using unchecked_is_plain [of n A] violation_fails [of A n] unchecked_error [of A n]
  by blast

theorem checks_gated_on_flag_witness:
  "\<not> hasUnknownCategory (Element ''a'' [] [Comment ''x--y''])
   \<and> violatesWellFormedness xml10 (Element ''a'' [] [Comment ''x--y''])
   \<and> serializeNode xml10 (Element ''a'' [] [Comment ''x--y'']) False = Inr ''<a><!--x--y--></a>''
   \<and> (\<exists>e. serializeNode xml10 (Element ''a'' [] [Comment ''x--y'']) True = Inl e)
   \<and> serializeNode xml10 (OtherNode 2) False = Inl (UnknownNodeType 2)"
  using checks_gated_on_flag [of "Element ''a'' [] [Comment ''x--y'']" xml10]
    checks_gated_on_flag [of "OtherNode 2" xml10]
  by (simp add: sublist_Cons_right)

subsection \<open>Duplicate attributes\<close>

text \<open>
  Two attributes with the same local name always fail under the flag, whatever else the
  element holds.
\<close>

lemma duplicate_names_fail:
  assumes "\<not> distinct (map attr_localName attributes)"
  shows "\<exists>e. serializeNode A (Element localName attributes childNodes) True = Inl e"
proof -
  from assms have "serializeAttributes A attributes True \<noteq> Inr out" for out
    unfolding serializeAttributes_def using serializeAttributes_loop_distinct by fastforce
  then show ?thesis
    by (auto split: sum.splits simp del: indexOf.simps)
qed

text \<open>
  One round of the loop of \<open>_serializeAttributes\<close> under the flag, read from the end of
  the list: the attributes before \<open>b\<close> first, then the three checks on \<open>b\<close> in the order
  of the code.
\<close>

lemma serializeAttributes_step:
  "serializeAttributes A (pre @ [b]) True =
     (case serializeAttributes A pre True of
        Inl e \<Rightarrow> Inl e
      | Inr r \<Rightarrow>
          if attr_localName b \<in> attr_localName ` set pre \<or>
             attr_localName b \<in> set objectPrototypeKeys
          then Inl DuplicateAttributes
          else if CHR '':'' \<in> set (attr_localName b) \<or> \<not> xml_isName A (attr_localName b)
          then Inl InvalidAttrLocalName
          else
            (case serializeAttributeValue A (attr_value b) True of
               Inl e \<Rightarrow> Inl e
             | Inr v \<Rightarrow> Inr (r @ '' '' @ attr_localName b @ ''=\"'' @ v @ ''\"'')))"
  using indexOf_char [of "attr_localName b" "CHR '':''"]
  by (auto simp: serializeAttributes_def serializeAttributes_loop_append inObject_def
      split: sum.splits simp del: indexOf.simps)

text \<open>
  C6. The duplicate check of \<open>_serializeAttributes\<close> is made only under the flag, one
  attribute at a time in list order, and reads nothing but local names: when the
  attributes before \<open>b\<close> serialize, \<open>b\<close> raises the duplicate failure exactly when its
  local name is the local name of one of them, or is one of the names the object
  literal \<open>{}\<close> inherits; otherwise its name and its value are checked and its markup is
  appended. Without the flag every attribute list serializes, duplicates too. The
  inherited names are where the code leaves the claim: the localname set is not empty
  at the start as its comment says, so a single attribute named \<open>constructor\<close> is
  reported as a duplicate, and of two such attributes it is the first that fails.
\<close>

theorem duplicate_check_by_local_name:
  "serializeAttributes A [] True = Inr []
   \<and> serializeAttributes A (pre @ [b]) True =
     (case serializeAttributes A pre True of
        Inl e \<Rightarrow> Inl e
      | Inr r \<Rightarrow>
          if attr_localName b \<in> attr_localName ` set pre \<or>
             attr_localName b \<in> set objectPrototypeKeys
          then Inl DuplicateAttributes
          else if CHR '':'' \<in> set (attr_localName b) \<or> \<not> xml_isName A (attr_localName b)
          then Inl InvalidAttrLocalName
          else
            (case serializeAttributeValue A (attr_value b) True of
               Inl e \<Rightarrow> Inl e
             | Inr v \<Rightarrow> Inr (r @ '' '' @ attr_localName b @ ''=\"'' @ v @ ''\"'')))
   \<and> serializeAttributes A attributes False = Inr (concat (map attributeMarkup attributes))
   \<and> serializeAttributes A [\<lparr>attr_localName = ''constructor'', attr_value = Some ''1''\<rparr>] True =
       Inl DuplicateAttributes
   \<and> serializeAttributes A
       [\<lparr>attr_localName = ''constructor'', attr_value = Some ''1''\<rparr>,
        \<lparr>attr_localName = ''constructor'', attr_value = Some ''2''\<rparr>] True =
       serializeAttributes A [\<lparr>attr_localName = ''constructor'', attr_value = Some ''1''\<rparr>] True
   \<and> serializeNode xml10
       (Element ''e'' [\<lparr>attr_localName = ''constructor'', attr_value = Some ''1''\<rparr>] []) True =
       Inl DuplicateAttributes
   \<and> serializeNode xml10
       (Element ''e'' [\<lparr>attr_localName = ''constructor'', attr_value = Some ''1''\<rparr>] []) False =
       Inr ''<e constructor=\"1\"/>''
   \<and> serializeNode xml10
       (Element ''e'' [\<lparr>attr_localName = ''x'', attr_value = Some ''1''\<rparr>,
          \<lparr>attr_localName = ''y'', attr_value = Some ''2''\<rparr>] []) True =
       Inr ''<e x=\"1\" y=\"2\"/>''
   \<and> serializeNode xml10
       (Element ''e'' [\<lparr>attr_localName = ''x'', attr_value = Some ''1''\<rparr>,
          \<lparr>attr_localName = ''x'', attr_value = Some ''2''\<rparr>] []) True =
       Inl DuplicateAttributes"
proof -
  have empty: "serializeAttributes A [] True = Inr []"
    by (simp add: serializeAttributes_def)
  have one: "serializeAttributes A [\<lparr>attr_localName = ''constructor'', attr_value = Some ''1''\<rparr>] True =
       Inl DuplicateAttributes" for A
    by (simp add: serializeAttributes_def inObject_def objectPrototypeKeys_def)
  have two: "serializeAttributes A
       [\<lparr>attr_localName = ''constructor'', attr_value = Some ''1''\<rparr>,
        \<lparr>attr_localName = ''constructor'', attr_value = Some ''2''\<rparr>] True =
       serializeAttributes A [\<lparr>attr_localName = ''constructor'', attr_value = Some ''1''\<rparr>] True"
    by (simp add: serializeAttributes_def inObject_def objectPrototypeKeys_def)
  have name_e: "indexOf ''e'' '':'' = - 1" "xml_isName xml10 ''e''"
    by (simp_all add: xml10_def isNameStartChar_def)
  have el1: "serializeNode xml10
       (Element ''e'' [\<lparr>attr_localName = ''constructor'', attr_value = Some ''1''\<rparr>] []) True =
       Inl DuplicateAttributes"
    using name_e by (simp add: one del: indexOf.simps)
  have el2: "serializeNode xml10
       (Element ''e'' [\<lparr>attr_localName = ''constructor'', attr_value = Some ''1''\<rparr>] []) False =
       Inr ''<e constructor=\"1\"/>''"
    by (simp add: serializeAttributes_plain attributeMarkup_def attributeEntities_def)
  have el3: "serializeNode xml10
       (Element ''e'' [\<lparr>attr_localName = ''x'', attr_value = Some ''1''\<rparr>,
          \<lparr>attr_localName = ''y'', attr_value = Some ''2''\<rparr>] []) True =
       Inr ''<e x=\"1\" y=\"2\"/>''"
    by (simp add: serializeAttributes_def inObject_def objectPrototypeKeys_def xml10_def
        isNameStartChar_def isChar_def serializeAttributeValue_def)
  have el4: "serializeNode xml10
       (Element ''e'' [\<lparr>attr_localName = ''x'', attr_value = Some ''1''\<rparr>,
          \<lparr>attr_localName = ''x'', attr_value = Some ''2''\<rparr>] []) True =
       Inl DuplicateAttributes"
    by (simp add: serializeAttributes_def inObject_def objectPrototypeKeys_def xml10_def
        isNameStartChar_def isChar_def serializeAttributeValue_def)
  show ?thesis
    by (intro conjI empty serializeAttributes_step serializeAttributes_plain one two el1 el2 el3 el4)
qed

section \<open>Properties of the lexer\<close>

text \<open>
  The literal scenarios of the lexer's test suite: a self-closing element with one
  attribute, followed by the end of input; and three inputs with a value that is not
  quoted, each an error at the first token.
\<close>

lemma lexer_self_closing_element:
  "nextToken \<lparr>lexer_str = ''<root att=\"val\"/>'', lexer_index = 0\<rparr> =
     Inr (Some (ElementToken ''root'' [(''att'', ''val'')] True),
          \<lparr>lexer_str = ''<root att=\"val\"/>'', lexer_index = 17\<rparr>)
   \<and> nextToken \<lparr>lexer_str = ''<root att=\"val\"/>'', lexer_index = 17\<rparr> =
     Inr (None, \<lparr>lexer_str = ''<root att=\"val\"/>'', lexer_index = 17\<rparr>)"
  by (simp add: nextToken_def lexAt_def lexOpenTag_def skipSpace_def isSpace_def
      equalsValue_def quoted_def)

lemma lexer_rejects_unquoted_values:
  "(\<exists>reason. nextToken \<lparr>lexer_str = ''<?xml version=1.0?>'', lexer_index = 0\<rparr> =
      Inl (LexError reason))
   \<and> (\<exists>reason. nextToken \<lparr>lexer_str = ''<root att=val/>'', lexer_index = 0\<rparr> =
      Inl (LexError reason))
   \<and> (\<exists>reason. nextToken \<lparr>lexer_str = ''<!DOCTYPE root PUBLIC pubId>'', lexer_index = 0\<rparr> =
      Inl (LexError reason))"
  by (simp add: nextToken_def lexAt_def lexOpenTag_def lexDeclaration_def lexDocType_def
      skipSpace_def isSpace_def equalsValue_def quoted_def)

text \<open>
  C9. On the input \<open><root>hello</root\<close>, whose closing tag has no final \<open>>\<close>, the first
  call of \<open>nextToken\<close> returns the element token \<open>root\<close> with no attributes, not
  self-closing; the second, from the state the first left, returns the text token
  \<open>hello\<close>; the third, from the state the second left, is a lexing error.
\<close>

theorem incomplete_closing_tag:
  "nextToken \<lparr>lexer_str = ''<root>hello</root'', lexer_index = 0\<rparr> =
     Inr (Some (ElementToken ''root'' [] False),
          \<lparr>lexer_str = ''<root>hello</root'', lexer_index = 6\<rparr>)
   \<and> nextToken \<lparr>lexer_str = ''<root>hello</root'', lexer_index = 6\<rparr> =
     Inr (Some (TextToken ''hello''),
          \<lparr>lexer_str = ''<root>hello</root'', lexer_index = 11\<rparr>)
   \<and> (\<exists>reason. nextToken \<lparr>lexer_str = ''<root>hello</root'', lexer_index = 11\<rparr> =
         Inl (LexError reason))"
  by (simp add: nextToken_def lexAt_def lexOpenTag_def lexText_def lexClosingTag_def
      skipSpace_def isSpace_def)

end
